theory Spec2Isabelle
  imports Main "HOL-Library.Word" "HOL-Library.DAList"
begin

section \<open>JavaScript strings\<close>

text \<open>
  A JavaScript string is a sequence of 16-bit UTF-16 code units, and a regular expression
  without the \<^verbatim>\<open>u\<close> flag works on code units. The literals of \<^verbatim>\<open>bin/cli.js\<close> are all
  ASCII, so a literal is written as a HOL string and converted with \<open>js\<close>.
\<close>

type_synonym js_char = "16 word"
type_synonym js_string = "js_char list"

definition code_unit :: "char \<Rightarrow> js_char" where
  "code_unit c = of_nat (of_char c)"

definition js :: "string \<Rightarrow> js_string" where
  "js s = map code_unit s"

text \<open>\<^verbatim>\<open>Array.prototype.join(sep)\<close> on an array of strings.\<close>

fun join :: "js_string \<Rightarrow> js_string list \<Rightarrow> js_string" where
  "join sep [] = []"
| "join sep [x] = x"
| "join sep (x # y # ys) = x @ sep @ join sep (y # ys)"


section \<open>The two regular expressions of the name question\<close>

text \<open>
  The character class \<^verbatim>\<open>[A-Za-z\d\s\-\_]\<close> is a list of class atoms: two ranges, the
  escapes \<^verbatim>\<open>\d\<close> and \<^verbatim>\<open>\s\<close>, and two escaped literals. \<^verbatim>\<open>\d\<close> is \<^verbatim>\<open>[0-9]\<close>; \<^verbatim>\<open>\s\<close> is
  ECMAScript's WhiteSpace and LineTerminator: TAB, LF, VT, FF, CR, SP, NBSP, U+1680,
  U+2000 to U+200A, U+2028, U+2029, U+202F, U+205F, U+3000 and U+FEFF.
\<close>

datatype class_atom =
    ClassRange js_char js_char
  | ClassDigit
  | ClassSpace
  | ClassChar js_char

definition white_space :: "js_char \<Rightarrow> bool" where
  "white_space c =
     (c \<in> set [0x0009, 0x000A, 0x000B, 0x000C, 0x000D, 0x0020, 0x00A0, 0x1680,
                0x2028, 0x2029, 0x202F, 0x205F, 0x3000, 0xFEFF]
      \<or> (0x2000 \<le> c \<and> c \<le> 0x200A))"

fun atom_matches :: "class_atom \<Rightarrow> js_char \<Rightarrow> bool" where
  "atom_matches (ClassRange lo hi) c = (lo \<le> c \<and> c \<le> hi)"
| "atom_matches ClassDigit c = (0x30 \<le> c \<and> c \<le> 0x39)"
| "atom_matches ClassSpace c = white_space c"
| "atom_matches (ClassChar d) c = (c = d)"

definition class_matches :: "class_atom list \<Rightarrow> js_char \<Rightarrow> bool" where
  "class_matches cls c = list_ex (\<lambda>a. atom_matches a c) cls"

text \<open>
  \<^verbatim>\<open>/^[cls]+$/.test(input)\<close>, matching from the start of the input: one character of the
  class, and then either the end of the input (there is no \<^verbatim>\<open>m\<close> flag, so \<^verbatim>\<open>$\<close> is the end
  of the input only) or the rest of the repetition.
\<close>

fun test_plus_to_end :: "class_atom list \<Rightarrow> js_string \<Rightarrow> bool" where
  "test_plus_to_end cls [] = False"
| "test_plus_to_end cls (c # cs) = (class_matches cls c \<and> (cs = [] \<or> test_plus_to_end cls cs))"

text \<open>
  \<^verbatim>\<open>input.replace(/[cls]+/g, rep)\<close>: scanning from the left, a character of the class starts
  a match, the greedy \<^verbatim>\<open>+\<close> takes every following character of the class, the match is
  replaced by \<open>rep\<close> and the scan goes on after it; any other character is copied.
\<close>

function replace_all_plus :: "class_atom list \<Rightarrow> js_string \<Rightarrow> js_string \<Rightarrow> js_string" where
  "replace_all_plus cls rep [] = []"
| "replace_all_plus cls rep (c # cs) =
     (if class_matches cls c
      then rep @ replace_all_plus cls rep (dropWhile (class_matches cls) cs)
      else c # replace_all_plus cls rep cs)"
  by pat_completeness auto
termination
  by (relation "measure (\<lambda>(cls, rep, cs). length cs)")
     (auto simp: length_dropWhile_le less_Suc_eq_le)

definition name_class :: "class_atom list" where
  "name_class =
     [ClassRange (code_unit CHR ''A'') (code_unit CHR ''Z''),
      ClassRange (code_unit CHR ''a'') (code_unit CHR ''z''),
      ClassDigit, ClassSpace,
      ClassChar (code_unit CHR ''-''), ClassChar (code_unit CHR ''_'')]"


section \<open>The name question\<close>

text \<open>
  \<^verbatim>\<open>validate\<close> (line 35) returns \<^verbatim>\<open>true\<close> or the message that the prompt shows before asking
  again; \<^verbatim>\<open>filter\<close> (line 39) rewrites the answer.
\<close>

datatype validation = Valid | Invalid js_string

definition validate :: "js_string \<Rightarrow> validation" where
  "validate input =
     (if test_plus_to_end name_class input then Valid
      else Invalid (js ''Project name may only include letters, numbers, spaces, underscores and hashes.''))"

definition filter_input :: "js_string \<Rightarrow> js_string" where
  "filter_input input = replace_all_plus [ClassSpace] (js ''-'') input"


section \<open>The prompt and its answers\<close>

text \<open>
  The four list questions (lines 43 to 84) return the \<^verbatim>\<open>value\<close> of the choice taken, so
  each answer is one of the listed values.
\<close>

datatype styling = Mui | Tailwind | NoStyling
datatype linting = EslintPrettier | Biome | NoLinting
datatype router = NoRouter | ReactRouter | TanStackRouter
datatype reactQuery = No | Yes

text \<open>
  What \<^verbatim>\<open>inquirer.prompt\<close> resolves to: \<^verbatim>\<open>projectName\<close> is there only when the name
  question was asked.
\<close>

record answers =
  answers_projectName :: "js_string option"
  answers_styling :: styling
  answers_linting :: linting
  answers_router :: router
  answers_reactQuery :: reactQuery

text \<open>
  The person at the terminal: the lines typed at the name question, one for each time it
  is asked (the session ends when they run out), and the choices taken at the four list
  questions (\<open>None\<close> when the session ends before the last of them is answered).
\<close>

record operator =
  typed_names :: "js_string list"
  picked :: "(styling \<times> linting \<times> router \<times> reactQuery) option"

text \<open>
  The input prompt of the \<^verbatim>\<open>inquirer\<close> library asks again until \<^verbatim>\<open>validate\<close> returns
  \<^verbatim>\<open>true\<close>, and its answer is the accepted line after \<^verbatim>\<open>filter\<close>.
\<close>

fun ask_projectName :: "js_string list \<Rightarrow> js_string option" where
  "ask_projectName [] = None"
| "ask_projectName (input # later) =
     (if validate input = Valid then Some (filter_input input) else ask_projectName later)"

text \<open>\<^verbatim>\<open>!projectDirectory\<close> (line 30): the argument is missing or the empty string.\<close>

definition not_given :: "js_string option \<Rightarrow> bool" where
  "not_given projectDirectory = (case projectDirectory of None \<Rightarrow> True | Some d \<Rightarrow> d = [])"

definition prompt :: "js_string option \<Rightarrow> operator \<Rightarrow> answers option" where
  "prompt projectDirectory op =
     (let name = (if not_given projectDirectory
                  then map_option Some (ask_projectName (typed_names op))
                  else Some None)
      in case name of
           None \<Rightarrow> None
         | Some n \<Rightarrow>
             (case picked op of
                None \<Rightarrow> None
              | Some (st, li, ro, rq) \<Rightarrow>
                  Some \<lparr>answers_projectName = n, answers_styling = st, answers_linting = li,
                        answers_router = ro, answers_reactQuery = rq\<rparr>))"

record userAnswers =
  projectName :: "js_string option"
  styling :: styling
  linting :: linting
  router :: router
  reactQuery :: reactQuery

text \<open>Lines 88 to 92; \<^verbatim>\<open>a ?? b\<close> is \<open>b\<close> when \<open>a\<close> is undefined.\<close>

definition set_userAnswers :: "answers \<Rightarrow> js_string option \<Rightarrow> userAnswers" where
  "set_userAnswers a projectDirectory =
     \<lparr>projectName = (case answers_projectName a of Some n \<Rightarrow> Some n | None \<Rightarrow> projectDirectory),
      styling = answers_styling a, linting = answers_linting a,
      router = answers_router a, reactQuery = answers_reactQuery a\<rparr>"


section \<open>The world of one run\<close>

text \<open>
  The files of the project directory, by their path relative to it. The manifest
  \<^verbatim>\<open>package.json\<close> is one of them; what \<^verbatim>\<open>require\<close> reads from it is a \<open>package_json\<close>:
  its \<^verbatim>\<open>scripts\<close> object (if it has one), an object with each key once, in order, and the
  other fields.
\<close>

type_synonym files = "js_string \<rightharpoonup> js_string"

type_synonym script_table = "(js_string, js_string) alist"

record package_json =
  pkg_scripts :: "script_table option"
  pkg_other :: "(js_string \<times> js_string) list"

text \<open>Everything that can be thrown inside the \<^verbatim>\<open>try\<close> block of the action.\<close>

datatype error =
    PromptRejected
  | InvalidArgType
  | EnsureDirFailed js_string
  | SubprocessFailed js_string
  | ChdirFailed js_string
  | WriteFailed js_string
  | NoSuchFile js_string
  | UnlinkFailed js_string
  | CannotLoadModule js_string
  | EntriesOfUndefined

datatype chalk = Plain | Blue | Green | Cyan | Red

text \<open>What a run does to the outside, in the order it does it.\<close>

datatype effect =
    ConsoleLog chalk js_string
  | ConsoleError chalk js_string error
  | EnsureDirSync js_string
  | ExecSync js_string
  | Chdir js_string
  | WriteFileSync js_string js_string
  | UnlinkSync js_string

text \<open>
  What the program does not decide: how the file system and the subprocesses answer.
  A subprocess returns whether it exited with status 0, and the files it leaves.
\<close>

record env =
  path_resolve :: "js_string \<Rightarrow> js_string"
  ensureDir_ok :: "js_string \<Rightarrow> bool"
  chdir_ok :: "js_string \<Rightarrow> bool"
  subprocess :: "js_string \<Rightarrow> files \<Rightarrow> bool \<times> files"
  write_ok :: "js_string \<Rightarrow> files \<Rightarrow> bool"
  unlink_ok :: "js_string \<Rightarrow> files \<Rightarrow> bool"
  json_parse :: "js_string \<Rightarrow> package_json option"
  json_stringify :: "package_json \<Rightarrow> js_string"

text \<open>The module-level arrays (lines 18 and 19), the files and the effects so far.\<close>

record state =
  files :: files
  devDependencies :: "js_string list"
  dependencies :: "js_string list"
  effects :: "effect list"

definition initial_state :: "files \<Rightarrow> state" where
  "initial_state fs = \<lparr>files = fs, devDependencies = [], dependencies = [], effects = []\<rparr>"

text \<open>
  A statement either throws, leaving the state it reached, or completes; statements in
  sequence stop at the first that throws.
\<close>

type_synonym step = "state \<Rightarrow> (error \<times> state) + state"

fun sequence :: "step list \<Rightarrow> step" where
  "sequence [] s = Inr s"
| "sequence (f # fs) s = (case f s of Inl e \<Rightarrow> Inl e | Inr s' \<Rightarrow> sequence fs s')"

definition skip :: step where
  "skip s = Inr s"

definition emit :: "effect \<Rightarrow> state \<Rightarrow> state" where
  "emit e s = s\<lparr>effects := effects s @ [e]\<rparr>"

definition console_log :: "chalk \<Rightarrow> js_string \<Rightarrow> step" where
  "console_log colour msg s = Inr (emit (ConsoleLog colour msg) s)"

definition ensureDirSync :: "env \<Rightarrow> js_string \<Rightarrow> step" where
  "ensureDirSync env p s =
     (let s1 = emit (EnsureDirSync p) s
      in if ensureDir_ok env p then Inr s1 else Inl (EnsureDirFailed p, s1))"

definition chdir :: "env \<Rightarrow> js_string \<Rightarrow> step" where
  "chdir env p s =
     (let s1 = emit (Chdir p) s
      in if chdir_ok env p then Inr s1 else Inl (ChdirFailed p, s1))"

definition execSync :: "env \<Rightarrow> js_string \<Rightarrow> step" where
  "execSync env cmd s =
     (let (ok, fs) = subprocess env cmd (files s);
          s1 = (emit (ExecSync cmd) s)\<lparr>files := fs\<rparr>
      in if ok then Inr s1 else Inl (SubprocessFailed cmd, s1))"

definition writeFileSync :: "env \<Rightarrow> js_string \<Rightarrow> js_string \<Rightarrow> step" where
  "writeFileSync env p content s =
     (let s1 = emit (WriteFileSync p content) s
      in if write_ok env p (files s) then Inr (s1\<lparr>files := (files s)(p \<mapsto> content)\<rparr>)
         else Inl (WriteFailed p, s1))"

definition unlinkSync :: "env \<Rightarrow> js_string \<Rightarrow> step" where
  "unlinkSync env p s =
     (let s1 = emit (UnlinkSync p) s
      in if files s p = None then Inl (NoSuchFile p, s1)
         else if unlink_ok env p (files s) then Inr (s1\<lparr>files := (files s)(p := None)\<rparr>)
         else Inl (UnlinkFailed p, s1))"

definition push_devDependencies :: "js_string list \<Rightarrow> step" where
  "push_devDependencies xs s = Inr (s\<lparr>devDependencies := devDependencies s @ xs\<rparr>)"

definition push_dependencies :: "js_string list \<Rightarrow> step" where
  "push_dependencies xs s = Inr (s\<lparr>dependencies := dependencies s @ xs\<rparr>)"


section \<open>The action\<close>

definition tailwindVersion :: js_string where
  "tailwindVersion = js ''3.4.17''"

text \<open>Lines 107 to 112.\<close>

definition add_styling_dependencies :: "userAnswers \<Rightarrow> step" where
  "add_styling_dependencies ua =
     (if styling ua = Mui then
        push_dependencies
          [js ''@mui/material'', js ''@emotion/react'', js ''@emotion/styled'',
           js ''@mui/icons-material'']
      else if styling ua = Tailwind then
        push_devDependencies
          [js ''tailwindcss@'' @ tailwindVersion, js ''postcss'', js ''autoprefixer'']
      else skip)"

text \<open>
  Lines 114 to 127. \<open>prettierrc\<close> is what \<^verbatim>\<open>JSON.stringify(_, null, 2)\<close> gives for the
  object literal of lines 117 to 123.
\<close>

definition prettierrc :: js_string where
  \<open>prettierrc = js ''{
  "semi": true,
  "trailingComma": "es5",
  "singleQuote": true,
  "printWidth": 100,
  "tabWidth": 2
}''\<close>

definition add_linting_dependencies :: "env \<Rightarrow> userAnswers \<Rightarrow> step" where
  "add_linting_dependencies env ua =
     (if linting ua = EslintPrettier then
        sequence
          [push_devDependencies
             [js ''eslint'', js ''prettier'', js ''eslint-config-prettier'',
              js ''eslint-plugin-prettier'', js ''eslint-plugin-react'',
              js ''eslint-plugin-react-hooks''],
           writeFileSync env (js ''.prettierrc'') prettierrc]
      else if linting ua = Biome then
        sequence
          [push_devDependencies [js ''@biomejs/biome''],
           unlinkSync env (js ''eslint.config.js'')]
      else skip)"

text \<open>Lines 129 to 132 and 134 to 137.\<close>

definition install_devDependencies :: "env \<Rightarrow> step" where
  \<open>install_devDependencies env s =
     (if length (devDependencies s) > 0 then
        sequence
          [console_log Blue (js ''
Installing development dependencies...''),
           execSync env (js ''npm install --save-dev '' @ join (js '' '') (devDependencies s))] s
      else Inr s)\<close>

definition install_dependencies :: "env \<Rightarrow> step" where
  \<open>install_dependencies env s =
     (if length (dependencies s) > 0 then
        sequence
          [console_log Blue (js ''
Installing dependencies...''),
           execSync env (js ''npm install '' @ join (js '' '') (dependencies s))] s
      else Inr s)\<close>

text \<open>Lines 139 to 157.\<close>

definition tailwind_config :: js_string where
  \<open>tailwind_config = js ''/** @type {import('tailwindcss').Config} */
export default {
  content: [
    "./index.html",
    "./src/**/*.{js,ts,jsx,tsx}",
  ],
  theme: {
    extend: {},
  },
  plugins: [],
}''\<close>

definition index_css :: js_string where
  \<open>index_css = js ''@tailwind base;
@tailwind components;
@tailwind utilities;''\<close>

definition configure_tailwind :: "env \<Rightarrow> userAnswers \<Rightarrow> step" where
  "configure_tailwind env ua =
     (if styling ua = Tailwind then
        sequence
          [execSync env (js ''npx tailwindcss init -p''),
           writeFileSync env (js ''tailwind.config.js'') tailwind_config,
           writeFileSync env (js ''src/index.css'') index_css]
      else skip)"

text \<open>Lines 159 to 162.\<close>

definition initialize_biome :: "env \<Rightarrow> userAnswers \<Rightarrow> step" where
  "initialize_biome env ua =
     (if linting ua = Biome then execSync env (js ''npx biome init'') else skip)"

text \<open>
  Lines 166 to 186. An object literal is evaluated from left to right: the spread copies
  the entries of the table (none when it is undefined), and each property that follows
  is assigned, in place when the key is there and at the end otherwise.
  \<^verbatim>\<open>Object.entries\<close> throws a TypeError on undefined. (\<open>CHR 0x27\<close> is the single quote
  that closes the glob of the \<^verbatim>\<open>format\<close> command.)
\<close>

definition spread :: "script_table option \<Rightarrow> script_table" where
  "spread table = (case table of None \<Rightarrow> DAList.empty | Some t \<Rightarrow> t)"

definition assign :: "(js_string \<times> js_string) list \<Rightarrow> script_table \<Rightarrow> script_table" where
  "assign props t = fold (\<lambda>(key, v). DAList.update key v) props t"

definition scripts :: "linting \<Rightarrow> script_table option \<Rightarrow> error + script_table" where
  \<open>scripts li table =
     (if li = EslintPrettier then
        Inr (assign
               [(js ''lint'', js ''eslint src --ext .ts,.tsx''),
                (js ''lint:fix'', js ''eslint src --ext .ts,.tsx --fix''),
                (js ''format'', js (''prettier --write 'src/**/*.{ts,tsx,css,md}'' @ [CHR 0x27]))]
               (spread table))
      else if li = Biome then
        Inr (assign
               [(js ''lint'', js ''biome check --apply src''),
                (js ''lint:fix'', js ''biome check --apply --fix src'')]
               (spread table))
      else
        (case table of
           None \<Rightarrow> Inl EntriesOfUndefined
         | Some t \<Rightarrow>
             Inr (DAList.filter
                    (\<lambda>(key, v). key \<notin> set [js ''lint'', js ''lint:fix'', js ''format''])
                    t)))\<close>

text \<open>
  Lines 165 and 187 to 188: \<^verbatim>\<open>require\<close> throws when the manifest is missing or is not
  JSON; the manifest is written back with the new script table.
\<close>

definition update_package_json :: "env \<Rightarrow> userAnswers \<Rightarrow> step" where
  "update_package_json env ua s =
     (case files s (js ''package.json'') of
        None \<Rightarrow> Inl (CannotLoadModule (js ''package.json''), s)
      | Some src \<Rightarrow>
          (case json_parse env src of
             None \<Rightarrow> Inl (CannotLoadModule (js ''package.json''), s)
           | Some packageJson \<Rightarrow>
               (case scripts (linting ua) (pkg_scripts packageJson) of
                  Inl e \<Rightarrow> Inl (e, s)
                | Inr sc \<Rightarrow>
                    writeFileSync env (js ''package.json'')
                      (json_stringify env (packageJson\<lparr>pkg_scripts := Some sc\<rparr>)) s)))"

text \<open>Lines 190 to 197; \<^verbatim>\<open>chalk\<close> joins its arguments with a space.\<close>

definition report_success :: "js_string \<Rightarrow> js_string \<Rightarrow> step" where
  \<open>report_success name projectPath =
     sequence
       [console_log Green (join (js '' '') [js ''
Success! Created'', name, js ''at'', projectPath]),
        console_log Blue (js ''
Inside that directory, you can run several commands:''),
        console_log Cyan (js ''
  npm run dev''),
        console_log Plain (js ''    Starts the development server.''),
        console_log Cyan (js ''
  npm run build''),
        console_log Plain (js ''    Bundles the app into static files for production.''),
        console_log Cyan (js ''  npm run dev''),
        console_log Blue (js ''
Go build your Billion dollar app now!'')]\<close>

text \<open>
  The \<^verbatim>\<open>try\<close> block, lines 29 to 197. \<^verbatim>\<open>path.resolve\<close> throws when its argument is not a
  string.
\<close>

definition action_body :: "env \<Rightarrow> operator \<Rightarrow> js_string option \<Rightarrow> step" where
  "action_body env op projectDirectory s =
     (case prompt projectDirectory op of
        None \<Rightarrow> Inl (PromptRejected, s)
      | Some a \<Rightarrow>
          (let ua = set_userAnswers a projectDirectory
           in case projectName ua of
                None \<Rightarrow> Inl (InvalidArgType, s)
              | Some name \<Rightarrow>
                  (let projectPath = path_resolve env name
                   in sequence
                        [console_log Blue (js ''Creating a new React CSR app in '' @ projectPath),
                         ensureDirSync env projectPath,
                         execSync env
                           (js ''npm create vite@latest '' @ name @ js '' -- --template react-swc-ts''),
                         chdir env projectPath,
                         add_styling_dependencies ua,
                         add_linting_dependencies env ua,
                         install_devDependencies env,
                         install_dependencies env,
                         configure_tailwind env ua,
                         initialize_biome env ua,
                         update_package_json env ua,
                         report_success name projectPath] s)))"

text \<open>
  The action with its \<^verbatim>\<open>catch\<close> (lines 198 to 201): the exit status of the process and the
  state it leaves. A run that throws nothing ends with status 0.
\<close>

definition action :: "env \<Rightarrow> operator \<Rightarrow> js_string option \<Rightarrow> files \<Rightarrow> nat \<times> state" where
  "action env op projectDirectory fs =
     (case action_body env op projectDirectory (initial_state fs) of
        Inr s \<Rightarrow> (0, s)
      | Inl (e, s) \<Rightarrow> (1, emit (ConsoleError Red (js ''Error:'') e) s))"


section \<open>Notions used to state the properties\<close>

text \<open>
  The characters that the message of the name question speaks of. Letters and digits are
  the ASCII ones; whitespace is what \<^verbatim>\<open>\s\<close> matches.
\<close>

definition letter :: "js_char \<Rightarrow> bool" where
  "letter c = (c \<in> set (js ''ABCDEFGHIJKLMNOPQRSTUVWXYZabcdefghijklmnopqrstuvwxyz''))"

definition digit :: "js_char \<Rightarrow> bool" where
  "digit c = (c \<in> set (js ''0123456789''))"

definition name_char :: "js_char \<Rightarrow> bool" where
  "name_char c =
     (letter c \<or> digit c \<or> white_space c \<or> c = code_unit CHR ''-'' \<or> c = code_unit CHR ''_'')"

text \<open>
  The maximal runs of a list with respect to a predicate: the list cut wherever the
  predicate changes its value. In \<open>hyphenate_runs\<close> each run of whitespace becomes one
  hyphen and every other run stays.
\<close>

fun runs :: "('a \<Rightarrow> bool) \<Rightarrow> 'a list \<Rightarrow> 'a list list" where
  "runs P [] = []"
| "runs P (x # xs) =
     (case runs P xs of
        [] \<Rightarrow> [[x]]
      | r # rs \<Rightarrow> if P x = P (hd r) then (x # r) # rs else [x] # r # rs)"

definition hyphenate_runs :: "js_string \<Rightarrow> js_string" where
  "hyphenate_runs s =
     concat (map (\<lambda>r. if white_space (hd r) then js ''-'' else r) (runs white_space s))"

text \<open>The state that a statement leaves, thrown or not, and the commands among effects.\<close>

definition final_state :: "(error \<times> state) + state \<Rightarrow> state" where
  "final_state r = (case r of Inl (e, s) \<Rightarrow> s | Inr s \<Rightarrow> s)"

fun exec_commands :: "effect list \<Rightarrow> js_string list" where
  "exec_commands [] = []"
| "exec_commands (ExecSync cmd # es) = cmd # exec_commands es"
| "exec_commands (e # es) = exec_commands es"

fun written_paths :: "effect list \<Rightarrow> js_string list" where
  "written_paths [] = []"
| "written_paths (WriteFileSync p c # es) = p # written_paths es"
| "written_paths (e # es) = written_paths es"

text \<open>A statement only adds to the effects, whether it throws or not.\<close>

definition appends :: "step \<Rightarrow> bool" where
  "appends f = (\<forall>s. \<exists>es. effects (final_state (f s)) = effects s @ es)"

text \<open>
  An environment in which every run completes: every call succeeds, every subprocess
  leaves a manifest, and the manifest read has an empty script table.
\<close>

definition example_env :: env where
  "example_env =
     \<lparr>path_resolve = (\<lambda>name. js ''/work/'' @ name),
      ensureDir_ok = (\<lambda>p. True),
      chdir_ok = (\<lambda>p. True),
      subprocess = (\<lambda>cmd fs. (True, fs(js ''package.json'' \<mapsto> js ''{}''))),
      write_ok = (\<lambda>p fs. True),
      unlink_ok = (\<lambda>p fs. True),
      json_parse = (\<lambda>src. Some \<lparr>pkg_scripts = Some DAList.empty, pkg_other = []\<rparr>),
      json_stringify = (\<lambda>pkg. js ''{}'')\<rparr>"


section \<open>Strings and patterns\<close>

lemma of_char_less_256: "(of_char c :: nat) < 256"
proof -
  have "(of_char c :: nat) mod 256 = of_char c" by simp
  then show ?thesis by (metis mod_less_divisor zero_less_numeral)
qed

lemma unat_code_unit: "unat (code_unit c) = of_char c"
proof -
  have "(of_char c :: nat) < 65536" by (rule less_trans [OF of_char_less_256]) simp
  then show ?thesis by (simp add: code_unit_def unat_of_nat)
qed

lemma code_unit_eq_iff [simp]: "code_unit c = code_unit d \<longleftrightarrow> c = d"
  by (metis unat_code_unit of_char_eq_iff)

lemma js_eq_iff [simp]: "js a = js b \<longleftrightarrow> a = b"
  by (simp add: js_def inj_def)

lemma js_append [simp]: "js a @ js b = js (a @ b)"
  by (simp add: js_def)

lemma js_Nil_iff [simp]: "js s = [] \<longleftrightarrow> s = []"
  by (simp add: js_def)

lemma join_Cons: "join sep (x # xs) = x @ concat (map (\<lambda>y. sep @ y) xs)"
  by (induction xs arbitrary: x) simp_all

text \<open>A range of code units is the list of its members.\<close>

lemma word_range_set:
  fixes c :: "'a::len word"
  shows "(lo \<le> c \<and> c \<le> hi) = (c \<in> set (map of_nat [unat lo ..< Suc (unat hi)]))"
proof
  assume "lo \<le> c \<and> c \<le> hi"
  then have "unat lo \<le> unat c" "unat c < Suc (unat hi)"
    by (simp_all add: word_le_nat_alt)
  then have "unat c \<in> set [unat lo ..< Suc (unat hi)]" by (simp del: upt_Suc)
  then have "of_nat (unat c) \<in> (of_nat ` set [unat lo ..< Suc (unat hi)] :: 'a word set)"
    by (rule imageI)
  then show "c \<in> set (map of_nat [unat lo ..< Suc (unat hi)])" by simp
next
  assume "c \<in> set (map of_nat [unat lo ..< Suc (unat hi)])"
  then obtain n where n: "c = of_nat n" "unat lo \<le> n" "n \<le> unat hi" by auto
  have "n < 2 ^ LENGTH('a)"
    using n(3) unsigned_less [of hi, where 'a = nat] by (rule le_less_trans)
  then have "unat c = n" using n(1) by (simp add: unat_of_nat)
  then show "lo \<le> c \<and> c \<le> hi" using n by (simp add: word_le_nat_alt)
qed

lemma letter_iff:
  "letter c =
     ((code_unit CHR ''A'' \<le> c \<and> c \<le> code_unit CHR ''Z'')
      \<or> (code_unit CHR ''a'' \<le> c \<and> c \<le> code_unit CHR ''z''))"
  unfolding word_range_set letter_def
  by (simp add: unat_code_unit js_def code_unit_def upt_rec)

lemma digit_iff: "digit c = (0x30 \<le> c \<and> c \<le> 0x39)"
  unfolding word_range_set digit_def
  by (simp add: js_def code_unit_def upt_rec)

lemma class_matches_name_class: "class_matches name_class c = name_char c"
  by (auto simp add: class_matches_def name_class_def name_char_def letter_iff digit_iff)

lemma class_matches_space [simp]: "class_matches [ClassSpace] = white_space"
  by (simp add: class_matches_def fun_eq_iff)

lemma test_plus_to_end_iff:
  "test_plus_to_end cls s \<longleftrightarrow> s \<noteq> [] \<and> (\<forall>c\<in>set s. class_matches cls c)"
  by (induction cls s rule: test_plus_to_end.induct) auto

text \<open>
  \<open>runs\<close> gives the maximal runs: they make up the list, none is empty, the predicate
  is constant on each, and it changes from each run to the next.
\<close>

lemma concat_runs: "concat (runs P xs) = xs"
  by (induction xs) (auto split: list.split)

lemma runs_nonempty: "[] \<notin> set (runs P xs)"
  by (induction xs) (auto split: list.splits)

lemma runs_uniform: "\<forall>r\<in>set (runs P xs). \<forall>x\<in>set r. P x = P (hd r)"
proof (induction xs)
  case Nil
  show ?case by simp
next
  case (Cons a xs)
  show ?case
  proof (cases "runs P xs")
    case Nil
    then show ?thesis by simp
  next
    case (Cons r rs)
    then have "\<forall>x\<in>set r. P x = P (hd r)" "\<forall>q\<in>set rs. \<forall>x\<in>set q. P x = P (hd q)"
      using Cons.IH by simp_all
    then show ?thesis using Cons by auto
  qed
qed

lemma runs_maximal: "distinct_adj (map (\<lambda>r. P (hd r)) (runs P xs))"
  by (induction xs) (auto split: list.splits)

lemma runs_Cons_hd: "runs P (x # xs) \<noteq> [] \<and> hd (hd (runs P (x # xs))) = x"
  by (simp split: list.split)

lemma runs_same:
  "runs P (x # xs) =
     (x # takeWhile (\<lambda>y. P y = P x) xs) # runs P (dropWhile (\<lambda>y. P y = P x) xs)"
proof (induction xs arbitrary: x)
  case Nil
  show ?case by simp
next
  case (Cons y ys)
  show ?case
  proof (cases "P y = P x")
    case True
    then show ?thesis using Cons [of y] by simp
  next
    case False
    obtain r rs where r: "runs P (y # ys) = r # rs" "hd r = y"
      using runs_Cons_hd [of P y ys] by (cases "runs P (y # ys)") auto
    show ?thesis using False r
      by (simp only: runs.simps(2) [of P x "y # ys"] takeWhile.simps dropWhile.simps list.case)
         simp
  qed
qed

lemma replace_all_plus_runs:
  "replace_all_plus [ClassSpace] rep s =
     concat (map (\<lambda>r. if white_space (hd r) then rep else r) (runs white_space s))"
proof (induction "[ClassSpace]" rep s rule: replace_all_plus.induct)
  case (1 rep)
  show ?case by simp
next
  case (2 rep c cs)
  show ?case
  proof (cases "white_space c")
    case True
    then have eq: "(\<lambda>y. white_space y = white_space c) = white_space" by auto
    show ?thesis using True 2(1)
      by (simp only: runs_same [of white_space c cs] eq) simp
  next
    case False
    then show ?thesis using 2(2) by (auto split: list.splits)
  qed
qed

text \<open>What the two callbacks of the name question compute.\<close>

lemma validate_iff: "validate input = Valid \<longleftrightarrow> input \<noteq> [] \<and> (\<forall>c\<in>set input. name_char c)"
  by (simp add: validate_def test_plus_to_end_iff class_matches_name_class)

lemma filter_input_runs: "filter_input s = hyphenate_runs s"
  by (simp add: filter_input_def hyphenate_runs_def replace_all_plus_runs)

lemma filter_input_whitespace:
  assumes "input \<noteq> []" and "\<forall>c\<in>set input. white_space c"
  shows "filter_input input = js ''-''"
proof -
  obtain c cs where input: "input = c # cs" using assms(1) by (cases input) auto
  have d: "dropWhile white_space cs = []" using assms(2) input by simp
  have "white_space c" using assms(2) input by simp
  then show ?thesis by (simp add: filter_input_def input d)
qed

lemma hyphen_not_alnum: "\<not> letter (code_unit CHR ''-'') \<and> \<not> digit (code_unit CHR ''-'')"
  by (simp add: letter_def digit_def js_def)

text \<open>
  The answer does not depend on whether the prompt validates the line as typed or the
  line after \<open>filter_input\<close>: both are accepted or both rejected.
\<close>

lemma ball_dropWhile:
  assumes "\<And>x. P x \<Longrightarrow> Q x"
  shows "(\<forall>x\<in>set (dropWhile P xs). Q x) \<longleftrightarrow> (\<forall>x\<in>set xs. Q x)"
proof -
  have "set xs = set (takeWhile P xs) \<union> set (dropWhile P xs)"
    by (metis set_append takeWhile_dropWhile_id)
  moreover have "\<forall>x\<in>set (takeWhile P xs). Q x"
    using assms by (auto dest: set_takeWhileD)
  ultimately show ?thesis by auto
qed

lemma filter_input_Nil_iff: "filter_input s = [] \<longleftrightarrow> s = []"
  by (cases s) (simp_all add: filter_input_def js_def)

lemma filter_input_name_chars:
  "(\<forall>c\<in>set (replace_all_plus [ClassSpace] (js ''-'') s). name_char c) \<longleftrightarrow> (\<forall>c\<in>set s. name_char c)"
proof (induction "[ClassSpace]" "js ''-''" s rule: replace_all_plus.induct)
  case 1
  show ?case by simp
next
  case (2 c cs)
  show ?case
  proof (cases "white_space c")
    case True
    have "(\<forall>x\<in>set (dropWhile white_space cs). name_char x) \<longleftrightarrow> (\<forall>x\<in>set cs. name_char x)"
      by (rule ball_dropWhile) (simp add: name_char_def)
    then show ?thesis using True 2(1) by (simp add: name_char_def js_def)
  next
    case False
    then show ?thesis using 2(2) by simp
  qed
qed

lemma validate_after_filter: "validate (filter_input s) = Valid \<longleftrightarrow> validate s = Valid"
  unfolding validate_iff filter_input_Nil_iff
  by (simp add: filter_input_def filter_input_name_chars)


section \<open>Script tables\<close>

lemma map_of_filter_distinct:
  "distinct (map fst t) \<Longrightarrow>
     map_of (filter P t) k =
       (case map_of t k of None \<Rightarrow> None | Some v \<Rightarrow> if P (k, v) then Some v else None)"
proof (induction t)
  case Nil
  show ?case by simp
next
  case (Cons a t)
  obtain k' v' where a: "a = (k', v')" by (cases a)
  have fresh: "k' \<notin> fst ` set t" using Cons.prems a by simp
  then have none: "map_of t k' = None" by (simp add: map_of_eq_None_iff)
  have none': "map_of (filter P t) k' = None"
    using fresh by (auto simp: map_of_eq_None_iff)
  show ?case using Cons a none none' by (auto split: option.splits)
qed

lemma lookup_filter:
  "DAList.lookup (DAList.filter P t) k =
     (case DAList.lookup t k of None \<Rightarrow> None | Some v \<Rightarrow> if P (k, v) then Some v else None)"
  by transfer (simp add: map_of_filter_distinct)


section \<open>Statements and their effects\<close>

lemma final_state_simps [simp]:
  "final_state (Inl (e, s)) = s" "final_state (Inr s) = s"
  by (simp_all add: final_state_def)

lemma exec_commands_append [simp]:
  "exec_commands (xs @ ys) = exec_commands xs @ exec_commands ys"
  by (induction xs rule: exec_commands.induct) auto

lemma written_paths_append [simp]:
  "written_paths (xs @ ys) = written_paths xs @ written_paths ys"
  by (induction xs rule: written_paths.induct) auto

lemma sequence_Cons_Inr:
  "sequence (f # fs) s = Inr s' \<longleftrightarrow> (\<exists>s1. f s = Inr s1 \<and> sequence fs s1 = Inr s')"
  by (cases "f s") auto

lemma execSync_eq:
  "execSync env cmd s =
     (if fst (subprocess env cmd (files s))
      then Inr ((emit (ExecSync cmd) s)\<lparr>files := snd (subprocess env cmd (files s))\<rparr>)
      else Inl (SubprocessFailed cmd, (emit (ExecSync cmd) s)\<lparr>files := snd (subprocess env cmd (files s))\<rparr>))"
  by (simp add: execSync_def case_prod_beta Let_def)

lemmas prim_defs =
  console_log_def ensureDirSync_def chdir_def execSync_eq writeFileSync_def unlinkSync_def
  push_devDependencies_def push_dependencies_def skip_def emit_def Let_def

lemmas step_defs =
  action_def action_body_def prompt_def not_given_def set_userAnswers_def initial_state_def
  add_styling_dependencies_def add_linting_dependencies_def install_devDependencies_def
  install_dependencies_def configure_tailwind_def initialize_biome_def update_package_json_def
  report_success_def scripts_def prim_defs

lemma appendsI: "(\<And>s. \<exists>es. effects (final_state (f s)) = effects s @ es) \<Longrightarrow> appends f"
  by (simp add: appends_def)

lemma appendsD: "appends f \<Longrightarrow> \<exists>es. effects (final_state (f s)) = effects s @ es"
  by (simp add: appends_def)

lemma appends_Inr: "appends f \<Longrightarrow> f s = Inr s' \<Longrightarrow> \<exists>es. effects s' = effects s @ es"
  using appendsD [of f s] by simp

lemma appends_sequence: "list_all appends fs \<Longrightarrow> appends (sequence fs)"
proof (induction fs)
  case Nil
  show ?case by (rule appendsI) simp
next
  case (Cons f fs)
  then have f: "appends f" and fs: "appends (sequence fs)" by simp_all
  show ?case
  proof (rule appendsI)
    fix s
    obtain es where es: "effects (final_state (f s)) = effects s @ es"
      using appendsD [OF f] by blast
    show "\<exists>es. effects (final_state (sequence (f # fs) s)) = effects s @ es"
    proof (cases "f s")
      case (Inl a)
      then show ?thesis using es by simp
    next
      case (Inr s1)
      obtain es' where "effects (final_state (sequence fs s1)) = effects s1 @ es'"
        using appendsD [OF fs] by blast
      then show ?thesis using Inr es by simp
    qed
  qed
qed

lemma appends_skip [simp]: "appends skip"
  by (rule appendsI) (simp add: skip_def)

lemma appends_console_log [simp]: "appends (console_log c m)"
  by (rule appendsI) (simp add: console_log_def emit_def)

lemma appends_ensureDirSync [simp]: "appends (ensureDirSync env p)"
  by (rule appendsI) (simp add: ensureDirSync_def emit_def Let_def)

lemma appends_chdir [simp]: "appends (chdir env p)"
  by (rule appendsI) (simp add: chdir_def emit_def Let_def)

lemma appends_execSync [simp]: "appends (execSync env cmd)"
  by (rule appendsI) (simp add: execSync_def emit_def Let_def split: prod.split)

lemma appends_writeFileSync [simp]: "appends (writeFileSync env p c)"
  by (rule appendsI) (simp add: writeFileSync_def emit_def Let_def)

lemma appends_unlinkSync [simp]: "appends (unlinkSync env p)"
  by (rule appendsI) (simp add: unlinkSync_def emit_def Let_def)

lemma appends_push_devDependencies [simp]: "appends (push_devDependencies xs)"
  by (rule appendsI) (simp add: push_devDependencies_def)

lemma appends_push_dependencies [simp]: "appends (push_dependencies xs)"
  by (rule appendsI) (simp add: push_dependencies_def)

lemma appends_add_styling_dependencies [simp]: "appends (add_styling_dependencies ua)"
  by (simp add: add_styling_dependencies_def)

lemma appends_add_linting_dependencies [simp]: "appends (add_linting_dependencies env ua)"
  by (simp add: add_linting_dependencies_def appends_sequence)

lemma appends_install_devDependencies [simp]: "appends (install_devDependencies env)"
proof (rule appendsI)
  fix s
  show "\<exists>es. effects (final_state (install_devDependencies env s)) = effects s @ es"
  proof (cases "devDependencies s = []")
    case True
    then show ?thesis by (simp add: install_devDependencies_def)
  next
    case False
    then show ?thesis
      by (simp add: install_devDependencies_def del: sequence.simps) (rule appendsD, rule appends_sequence, simp)
  qed
qed

lemma appends_install_dependencies [simp]: "appends (install_dependencies env)"
proof (rule appendsI)
  fix s
  show "\<exists>es. effects (final_state (install_dependencies env s)) = effects s @ es"
  proof (cases "dependencies s = []")
    case True
    then show ?thesis by (simp add: install_dependencies_def)
  next
    case False
    then show ?thesis
      by (simp add: install_dependencies_def del: sequence.simps) (rule appendsD, rule appends_sequence, simp)
  qed
qed

lemma appends_configure_tailwind [simp]: "appends (configure_tailwind env ua)"
  by (simp add: configure_tailwind_def appends_sequence)

lemma appends_initialize_biome [simp]: "appends (initialize_biome env ua)"
  by (simp add: initialize_biome_def)

lemma appends_update_package_json [simp]: "appends (update_package_json env ua)"
proof (rule appendsI)
  fix s
  show "\<exists>es. effects (final_state (update_package_json env ua s)) = effects s @ es"
    using appendsD [OF appends_writeFileSync, of _ _ _ s]
    by (simp add: update_package_json_def split: option.split sum.split)
qed

lemma appends_report_success [simp]: "appends (report_success name p)"
  by (simp add: report_success_def appends_sequence)


section \<open>Runs of the action\<close>

lemma prompt_picked:
  "prompt pd op = Some a \<Longrightarrow>
     picked op = Some (answers_styling a, answers_linting a, answers_router a, answers_reactQuery a)"
  by (auto simp: prompt_def Let_def split: option.splits if_splits)

lemma set_userAnswers_simps [simp]:
  "styling (set_userAnswers a pd) = answers_styling a"
  "linting (set_userAnswers a pd) = answers_linting a"
  by (simp_all add: set_userAnswers_def)

lemma action_cases:
  "(\<exists>s. action env op pd fs = (0, s) \<and> action_body env op pd (initial_state fs) = Inr s)
   \<or> (\<exists>e s. action env op pd fs = (1, s\<lparr>effects := effects s @ [ConsoleError Red (js ''Error:'') e]\<rparr>)
          \<and> action_body env op pd (initial_state fs) = Inl (e, s))"
  by (cases "action_body env op pd (initial_state fs)") (auto simp: action_def emit_def)

lemma action_effects_start:
  assumes "prompt pd op = Some a" and "projectName (set_userAnswers a pd) = Some name"
  shows "\<exists>es. effects (snd (action env op pd fs)) =
           [ConsoleLog Blue (js ''Creating a new React CSR app in '' @ path_resolve env name),
            EnsureDirSync (path_resolve env name)]
           @ (if ensureDir_ok env (path_resolve env name)
              then [ExecSync (js ''npm create vite@latest '' @ name @ js '' -- --template react-swc-ts'')]
              else [])
           @ es"
proof -
  define ua where "ua = set_userAnswers a pd"
  define p where "p = path_resolve env name"
  define cmd where "cmd = js ''npm create vite@latest '' @ name @ js '' -- --template react-swc-ts''"
  define rest where "rest =
    [chdir env p, add_styling_dependencies ua, add_linting_dependencies env ua,
     install_devDependencies env, install_dependencies env, configure_tailwind env ua,
     initialize_biome env ua, update_package_json env ua, report_success name p]"
  define s0 where "s0 = initial_state fs"
  define s1 where "s1 = emit (ConsoleLog Blue (js ''Creating a new React CSR app in '' @ p)) s0"
  define s2 where "s2 = emit (EnsureDirSync p) s1"
  define s3 where "s3 = (emit (ExecSync cmd) s2)\<lparr>files := snd (subprocess env cmd (files s2))\<rparr>"
  have body: "action_body env op pd s0 =
      sequence (console_log Blue (js ''Creating a new React CSR app in '' @ p)
                # ensureDirSync env p # execSync env cmd # rest) s0"
    using assms by (simp add: action_body_def ua_def p_def rest_def cmd_def Let_def del: sequence.simps)
  have rest: "appends (sequence rest)"
    by (rule appends_sequence) (simp add: rest_def)
  obtain es where es: "effects (final_state (sequence rest s3)) = effects s3 @ es"
    using appendsD [OF rest] by blast
  have e2: "effects s2 = [ConsoleLog Blue (js ''Creating a new React CSR app in '' @ p), EnsureDirSync p]"
    by (simp add: s2_def s1_def s0_def emit_def initial_state_def)
  have e3: "effects s3 = effects s2 @ [ExecSync cmd]"
    by (simp add: s3_def emit_def)
  have act: "effects (snd (action env op pd fs)) =
     effects (final_state (action_body env op pd s0))
     @ (case action_body env op pd s0 of Inl (e, s) \<Rightarrow> [ConsoleError Red (js ''Error:'') e] | Inr s \<Rightarrow> [])"
    by (simp add: action_def s0_def emit_def split: sum.split prod.split)
  show ?thesis
  proof (cases "ensureDir_ok env p")
    case False
    then have "action_body env op pd s0 = Inl (EnsureDirFailed p, s2)"
      by (simp add: body console_log_def ensureDirSync_def s1_def s2_def Let_def)
    then show ?thesis using False e2 act by (simp add: p_def)
  next
    case True
    show ?thesis
    proof (cases "fst (subprocess env cmd (files s2))")
      case False
      then have "action_body env op pd s0 = Inl (SubprocessFailed cmd, s3)"
        using True
        by (simp add: body console_log_def ensureDirSync_def execSync_def s1_def s2_def s3_def Let_def
              case_prod_beta)
      then show ?thesis using True e2 e3 act by (simp add: p_def cmd_def)
    next
      case ok: True
      then have "action_body env op pd s0 = sequence rest s3"
        using True
        by (simp add: body console_log_def ensureDirSync_def execSync_def s1_def s2_def s3_def Let_def
              case_prod_beta)
      then show ?thesis using True e2 e3 act es by (simp add: p_def cmd_def split: sum.split prod.split) 
    qed
  qed
qed

lemma action_completed:
  assumes "action env op pd fs = (0, s)"
  shows "\<exists>a name s4 s5 s6 s7 s8 s9 s10 s11.
           prompt pd op = Some a \<and> projectName (set_userAnswers a pd) = Some name
         \<and> sequence
              [console_log Blue (js ''Creating a new React CSR app in '' @ path_resolve env name),
               ensureDirSync env (path_resolve env name),
               execSync env (js ''npm create vite@latest '' @ name @ js '' -- --template react-swc-ts''),
               chdir env (path_resolve env name)] (initial_state fs) = Inr s4
         \<and> add_styling_dependencies (set_userAnswers a pd) s4 = Inr s5
         \<and> add_linting_dependencies env (set_userAnswers a pd) s5 = Inr s6
         \<and> install_devDependencies env s6 = Inr s7
         \<and> install_dependencies env s7 = Inr s8
         \<and> configure_tailwind env (set_userAnswers a pd) s8 = Inr s9
         \<and> initialize_biome env (set_userAnswers a pd) s9 = Inr s10
         \<and> update_package_json env (set_userAnswers a pd) s10 = Inr s11
         \<and> report_success name (path_resolve env name) s11 = Inr s"
proof -
  have body: "action_body env op pd (initial_state fs) = Inr s"
    using assms by (simp add: action_def split: sum.splits prod.splits)
  then obtain a where a: "prompt pd op = Some a"
    by (cases "prompt pd op") (simp_all add: action_body_def)
  obtain name where name: "projectName (set_userAnswers a pd) = Some name"
    using body a by (cases "projectName (set_userAnswers a pd)") (simp_all add: action_body_def Let_def)
  show ?thesis
    using body a name
    by (auto simp: action_body_def Let_def sequence_Cons_Inr simp del: sequence.simps(2))
qed

lemma scaffold_files:
  assumes "sequence
              [console_log c m, ensureDirSync env p, execSync env cmd, chdir env p] (initial_state fs)
            = Inr s4"
  shows "files s4 = snd (subprocess env cmd fs) \<and> ensureDir_ok env p
    \<and> fst (subprocess env cmd fs) \<and> chdir_ok env p"
  using assms by (auto simp: prim_defs initial_state_def split: if_splits)

lemma add_styling_dependencies_files:
  "add_styling_dependencies ua s = Inr s' \<Longrightarrow> files s' = files s"
  by (auto simp: add_styling_dependencies_def prim_defs split: if_splits)

lemma add_linting_dependencies_Biome_missing:
  assumes "linting ua = Biome" and "files s (js ''eslint.config.js'') = None"
  shows "add_linting_dependencies env ua s =
           Inl (NoSuchFile (js ''eslint.config.js''),
                s\<lparr>devDependencies := devDependencies s @ [js ''@biomejs/biome''],
                   effects := effects s @ [UnlinkSync (js ''eslint.config.js'')]\<rparr>)"
  using assms by (simp add: add_linting_dependencies_def prim_defs)

lemma configure_tailwind_Tailwind:
  assumes "styling ua = Tailwind"
    and "subprocess env (js ''npx tailwindcss init -p'') (files s) = (True, fs1)"
    and "write_ok env (js ''tailwind.config.js'') fs1"
    and "write_ok env (js ''src/index.css'') (fs1(js ''tailwind.config.js'' \<mapsto> tailwind_config))"
  shows "configure_tailwind env ua s =
           Inr (s\<lparr>files := fs1(js ''tailwind.config.js'' \<mapsto> tailwind_config,
                                js ''src/index.css'' \<mapsto> index_css),
                   effects := effects s @
                     [ExecSync (js ''npx tailwindcss init -p''),
                      WriteFileSync (js ''tailwind.config.js'') tailwind_config,
                      WriteFileSync (js ''src/index.css'') index_css]\<rparr>)"
  using assms
  by (simp add: configure_tailwind_def execSync_eq writeFileSync_def emit_def Let_def)

lemma configure_tailwind_Inr:
  assumes "styling ua = Tailwind" and "configure_tailwind env ua s = Inr s'"
  shows "effects s' = effects s @
           [ExecSync (js ''npx tailwindcss init -p''),
            WriteFileSync (js ''tailwind.config.js'') tailwind_config,
            WriteFileSync (js ''src/index.css'') index_css]"
  using assms
  by (auto simp add: configure_tailwind_def execSync_eq writeFileSync_def emit_def Let_def
        split: if_splits)

lemma mui_run:
  assumes "picked op = Some (Mui, NoLinting, ro, rq)" and "action env op pd fs = (0, s)"
  shows "dependencies s = [js ''@mui/material'', js ''@emotion/react'', js ''@emotion/styled'',
                                js ''@mui/icons-material'']
     \<and> devDependencies s = []
     \<and> written_paths (effects s) = [js ''package.json'']
     \<and> (\<exists>name. exec_commands (effects s) =
           [js ''npm create vite@latest '' @ name @ js '' -- --template react-swc-ts'',
            js ''npm install @mui/material @emotion/react @emotion/styled @mui/icons-material''])"
proof -
  obtain a name s4 s5 s6 s7 s8 s9 s10 s11 where a: "prompt pd op = Some a"
    and c: "sequence
              [console_log Blue (js ''Creating a new React CSR app in '' @ path_resolve env name),
               ensureDirSync env (path_resolve env name),
               execSync env (js ''npm create vite@latest '' @ name @ js '' -- --template react-swc-ts''),
               chdir env (path_resolve env name)] (initial_state fs) = Inr s4"
         "add_styling_dependencies (set_userAnswers a pd) s4 = Inr s5"
         "add_linting_dependencies env (set_userAnswers a pd) s5 = Inr s6"
         "install_devDependencies env s6 = Inr s7"
         "install_dependencies env s7 = Inr s8"
         "configure_tailwind env (set_userAnswers a pd) s8 = Inr s9"
         "initialize_biome env (set_userAnswers a pd) s9 = Inr s10"
         "update_package_json env (set_userAnswers a pd) s10 = Inr s11"
         "report_success name (path_resolve env name) s11 = Inr s"
    using action_completed [OF assms(2)] by blast
  have st: "styling (set_userAnswers a pd) = Mui" "linting (set_userAnswers a pd) = NoLinting"
    using prompt_picked [OF a] assms(1) by simp_all
  have 4: "dependencies s4 = [] \<and> devDependencies s4 = [] \<and> written_paths (effects s4) = []
     \<and> exec_commands (effects s4) = [js ''npm create vite@latest '' @ name @ js '' -- --template react-swc-ts'']"
    using c(1) by (auto simp: prim_defs initial_state_def split: if_splits)
  have 5: "s5 = s4\<lparr>dependencies := [js ''@mui/material'', js ''@emotion/react'', js ''@emotion/styled'',
                                js ''@mui/icons-material'']\<rparr>"
    using c(2) st 4 by (auto simp: add_styling_dependencies_def prim_defs)
  have 6: "s6 = s5" using c(3) st by (auto simp: add_linting_dependencies_def prim_defs)
  have 7: "s7 = s6" using c(4) 4 5 6 by (auto simp: install_devDependencies_def)
  have 8: "dependencies s8 = dependencies s7 \<and> devDependencies s8 = [] \<and> written_paths (effects s8) = []
     \<and> exec_commands (effects s8) = [js ''npm create vite@latest '' @ name @ js '' -- --template react-swc-ts'',
            js ''npm install @mui/material @emotion/react @emotion/styled @mui/icons-material'']"
    using c(5) 4 5 6 7 by (auto simp: install_dependencies_def prim_defs split: if_splits)
  have 9: "s9 = s8" using c(6) st by (auto simp: configure_tailwind_def prim_defs)
  have 10: "s10 = s9" using c(7) st by (auto simp: initialize_biome_def prim_defs)
  have 11: "dependencies s11 = dependencies s10 \<and> devDependencies s11 = devDependencies s10
     \<and> written_paths (effects s11) = written_paths (effects s10) @ [js ''package.json'']
     \<and> exec_commands (effects s11) = exec_commands (effects s10)"
    using c(8) by (auto simp: update_package_json_def prim_defs split: option.splits sum.splits if_splits)
  have 12: "dependencies s = dependencies s11 \<and> devDependencies s = devDependencies s11
     \<and> written_paths (effects s) = written_paths (effects s11)
     \<and> exec_commands (effects s) = exec_commands (effects s11)"
    using c(9) by (auto simp: report_success_def prim_defs)
  show ?thesis using 4 5 6 7 8 9 10 11 12 by auto
qed

text \<open>The manifest that the last step writes has the table that \<open>scripts\<close> gives.\<close>

lemma update_package_json_writes:
  assumes "files s (js ''package.json'') = Some src" and "json_parse env src = Some pkg"
    and "scripts (linting ua) (pkg_scripts pkg) = Inr t'"
    and "write_ok env (js ''package.json'') (files s)"
  shows "update_package_json env ua s =
           Inr (s\<lparr>files := (files s)(js ''package.json'' \<mapsto>
                                 json_stringify env (pkg\<lparr>pkg_scripts := Some t'\<rparr>)),
                   effects := effects s @
                     [WriteFileSync (js ''package.json'')
                        (json_stringify env (pkg\<lparr>pkg_scripts := Some t'\<rparr>))]\<rparr>)"
  using assms by (simp add: update_package_json_def writeFileSync_def emit_def)


section \<open>The dependency plan\<close>

text \<open>
  C1. With styling \<open>Mui\<close> and linting \<open>NoLinting\<close>, lines 107 to 127 run from the empty
  arrays of the program leave \<^verbatim>\<open>dependencies\<close> as the four MUI packages in the order of
  line 109 and \<^verbatim>\<open>devDependencies\<close> empty, and have no effect; the styling step of lines 139
  to 157 does nothing. In a run that completes, that is what the arrays end as, the only
  file written is the manifest, and the only subprocesses are the scaffolder and one
  \<^verbatim>\<open>npm install\<close> of the four packages.
\<close>

theorem mui_dependencies:
  assumes "styling ua = Mui" and "linting ua = NoLinting"
  shows "sequence [add_styling_dependencies ua, add_linting_dependencies env ua] (initial_state fs) =
           Inr \<lparr>files = fs, devDependencies = [],
                dependencies = [js ''@mui/material'', js ''@emotion/react'', js ''@emotion/styled'',
                                js ''@mui/icons-material''],
                effects = []\<rparr>
    \<and> configure_tailwind env ua s = Inr s
    \<and> (picked op = Some (Mui, NoLinting, ro, rq) \<and> action env op pd fs = (0, s')
        \<longrightarrow> dependencies s' = [js ''@mui/material'', js ''@emotion/react'', js ''@emotion/styled'',
                                js ''@mui/icons-material'']
          \<and> devDependencies s' = []
          \<and> written_paths (effects s') = [js ''package.json'']
          \<and> (\<exists>name. exec_commands (effects s') =
                [js ''npm create vite@latest '' @ name @ js '' -- --template react-swc-ts'',
                 js ''npm install @mui/material @emotion/react @emotion/styled @mui/icons-material'']))"
  using assms mui_run [of op ro rq env pd fs s']
  by (simp add: add_styling_dependencies_def add_linting_dependencies_def configure_tailwind_def
        push_dependencies_def skip_def initial_state_def)

theorem mui_dependencies_witness:
  "sequence
     [add_styling_dependencies
        \<lparr>projectName = Some (js ''app''), styling = Mui, linting = NoLinting,
          router = NoRouter, reactQuery = No\<rparr>,
      add_linting_dependencies example_env
        \<lparr>projectName = Some (js ''app''), styling = Mui, linting = NoLinting,
          router = NoRouter, reactQuery = No\<rparr>]
     (initial_state Map.empty) =
     Inr \<lparr>files = Map.empty, devDependencies = [],
          dependencies = [js ''@mui/material'', js ''@emotion/react'', js ''@emotion/styled'',
                          js ''@mui/icons-material''],
          effects = []\<rparr>
   \<and> fst (action example_env
           \<lparr>typed_names = [], picked = Some (Mui, NoLinting, NoRouter, No)\<rparr>
           (Some (js ''app'')) Map.empty) = 0
   \<and> exec_commands (effects (snd (action example_env
           \<lparr>typed_names = [], picked = Some (Mui, NoLinting, NoRouter, No)\<rparr>
           (Some (js ''app'')) Map.empty))) =
       [js ''npm create vite@latest app -- --template react-swc-ts'',
        js ''npm install @mui/material @emotion/react @emotion/styled @mui/icons-material'']
   \<and> written_paths (effects (snd (action example_env
           \<lparr>typed_names = [], picked = Some (Mui, NoLinting, NoRouter, No)\<rparr>
           (Some (js ''app'')) Map.empty))) = [js ''package.json'']"
proof -
  define op where "op = \<lparr>typed_names = [], picked = Some (Mui, NoLinting, NoRouter, No)\<rparr>"
  define ua where "ua = \<lparr>projectName = Some (js ''app''), styling = Mui, linting = NoLinting,
        router = NoRouter, reactQuery = No\<rparr>"
  have st: "fst (action example_env op (Some (js ''app'')) Map.empty) = 0"
    by (simp add: step_defs example_env_def op_def)
  then have run: "action example_env op (Some (js ''app'')) Map.empty =
      (0, snd (action example_env op (Some (js ''app'')) Map.empty))"
    by (simp add: prod_eq_iff)
  have cmds: "exec_commands (effects (snd (action example_env op (Some (js ''app'')) Map.empty))) =
       [js ''npm create vite@latest app -- --template react-swc-ts'',
        js ''npm install @mui/material @emotion/react @emotion/styled @mui/icons-material'']"
    by (simp add: step_defs example_env_def op_def)
  have h: "styling ua = Mui" "linting ua = NoLinting"
    "picked op = Some (Mui, NoLinting, NoRouter, No)"
    by (simp_all add: ua_def op_def)
  show ?thesis
    using mui_dependencies [OF h(1,2), where env = example_env and fs = Map.empty and op = op
        and ro = NoRouter and rq = No and pd = "Some (js ''app'')"
        and s' = "snd (action example_env op (Some (js ''app'')) Map.empty)"]
      h(3) run st cmds
    unfolding op_def [symmetric] ua_def [symmetric]
    by simp
qed

text \<open>
  C5. With styling \<open>Tailwind\<close>, line 111 appends to \<^verbatim>\<open>devDependencies\<close> exactly
  \<^verbatim>\<open>tailwindcss@3.4.17\<close>, \<^verbatim>\<open>postcss\<close> and \<^verbatim>\<open>autoprefixer\<close>, in this order, whatever the other
  answers and the state are: the version is the literal of line 21. Run from the empty
  arrays of the program, lines 107 to 127 leave these three first, followed by the
  packages of the linting answer.
\<close>

theorem tailwind_devDependencies:
  assumes "styling ua = Tailwind"
  shows "add_styling_dependencies ua s =
           Inr (s\<lparr>devDependencies :=
                    devDependencies s @ [js ''tailwindcss@3.4.17'', js ''postcss'', js ''autoprefixer'']\<rparr>)
    \<and> devDependencies
          (final_state (sequence [add_styling_dependencies ua, add_linting_dependencies env ua]
                          (initial_state fs))) =
        [js ''tailwindcss@3.4.17'', js ''postcss'', js ''autoprefixer'']
        @ (case linting ua of
             EslintPrettier \<Rightarrow>
               [js ''eslint'', js ''prettier'', js ''eslint-config-prettier'',
                js ''eslint-plugin-prettier'', js ''eslint-plugin-react'',
                js ''eslint-plugin-react-hooks'']
           | Biome \<Rightarrow> [js ''@biomejs/biome'']
           | NoLinting \<Rightarrow> [])"
  using assms
  by (cases "linting ua")
     (simp_all add: add_styling_dependencies_def add_linting_dependencies_def tailwindVersion_def
        push_devDependencies_def skip_def initial_state_def writeFileSync_def unlinkSync_def
        emit_def Let_def)

theorem tailwind_devDependencies_witness:
  "devDependencies
     (final_state
        (sequence
           [add_styling_dependencies
              \<lparr>projectName = Some (js ''app''), styling = Tailwind, linting = Biome,
                router = NoRouter, reactQuery = No\<rparr>,
            add_linting_dependencies example_env
              \<lparr>projectName = Some (js ''app''), styling = Tailwind, linting = Biome,
                router = NoRouter, reactQuery = No\<rparr>]
           (initial_state Map.empty))) =
     [js ''tailwindcss@3.4.17'', js ''postcss'', js ''autoprefixer'', js ''@biomejs/biome'']"
  using tailwind_devDependencies
    [of "\<lparr>projectName = Some (js ''app''), styling = Tailwind, linting = Biome,
           router = NoRouter, reactQuery = No\<rparr>" "initial_state Map.empty" example_env Map.empty]
  by (simp del: sequence.simps)

text \<open>
  C9. From any dependency plan, lines 129 to 137 invoke \<^verbatim>\<open>npm install --save-dev\<close> exactly
  when \<^verbatim>\<open>devDependencies\<close> is not empty and \<^verbatim>\<open>npm install\<close> exactly when \<^verbatim>\<open>dependencies\<close> is not
  empty, each once, with the list joined by single spaces in its order, the first before
  the second. The second is reached when the first, if made, exits with status 0.
\<close>

theorem install_invocations:
  assumes "devDependencies s \<noteq> [] \<longrightarrow>
             fst (subprocess env (js ''npm install --save-dev '' @ join (js '' '') (devDependencies s))
                    (files s))"
  shows "exec_commands
           (effects (final_state (sequence [install_devDependencies env, install_dependencies env] s))) =
         exec_commands (effects s)
         @ (if devDependencies s \<noteq> []
            then [js ''npm install --save-dev '' @ join (js '' '') (devDependencies s)] else [])
         @ (if dependencies s \<noteq> []
            then [js ''npm install '' @ join (js '' '') (dependencies s)] else [])"
  using assms
  by (simp add: install_devDependencies_def install_dependencies_def console_log_def execSync_eq
        emit_def)

theorem install_invocations_witness:
  "exec_commands
     (effects (final_state
        (sequence [install_devDependencies example_env, install_dependencies example_env]
           \<lparr>files = Map.empty,
             devDependencies = [js ''tailwindcss@3.4.17'', js ''postcss'', js ''autoprefixer''],
             dependencies = [js ''@mui/material'', js ''@emotion/react''],
             effects = []\<rparr>))) =
     [js ''npm install --save-dev tailwindcss@3.4.17 postcss autoprefixer'',
      js ''npm install @mui/material @emotion/react'']"
  using install_invocations
    [of "\<lparr>files = Map.empty,
           devDependencies = [js ''tailwindcss@3.4.17'', js ''postcss'', js ''autoprefixer''],
           dependencies = [js ''@mui/material'', js ''@emotion/react''],
           effects = []\<rparr>" example_env]
  by (simp add: example_env_def)


section \<open>The files of the styling step\<close>

text \<open>
  C6. The two texts that lines 143 to 156 write are the eleven lines of the template
  (content globs \<^verbatim>\<open>./index.html\<close> and \<^verbatim>\<open>./src/**/*.{js,ts,jsx,tsx}\<close>, empty theme extension, empty
  plugin list) and the three \<^verbatim>\<open>@tailwind\<close> directives, joined by newlines. With styling
  \<open>Tailwind\<close>, when the initializer exits with status 0 and the two writes are permitted,
  the styling step leaves \<^verbatim>\<open>tailwind.config.js\<close> with exactly the template and
  \<^verbatim>\<open>src/index.css\<close> with exactly the directives, whatever they held; and every run that
  completes has made the two writes, in this order, right after the initializer.
\<close>

theorem tailwind_files:
  \<open>tailwind_config =
      join [code_unit (CHR 0x0A)]
        (map js [''/** @type {import('tailwindcss').Config} */'',
                 ''export default {'',
                 ''  content: ['',
                 ''    "./index.html",'',
                 ''    "./src/**/*.{js,ts,jsx,tsx}",'',
                 ''  ],'',
                 ''  theme: {'',
                 ''    extend: {},'',
                 ''  },'',
                 ''  plugins: [],'',
                 ''}''])
   \<and> index_css =
      join [code_unit (CHR 0x0A)]
        (map js [''@tailwind base;'', ''@tailwind components;'', ''@tailwind utilities;''])
   \<and> (styling ua = Tailwind
        \<and> subprocess env (js ''npx tailwindcss init -p'') (files s) = (True, fs1)
        \<and> write_ok env (js ''tailwind.config.js'') fs1
        \<and> write_ok env (js ''src/index.css'') (fs1(js ''tailwind.config.js'' \<mapsto> tailwind_config))
        \<longrightarrow> configure_tailwind env ua s =
              Inr (s\<lparr>files := fs1(js ''tailwind.config.js'' \<mapsto> tailwind_config,
                                   js ''src/index.css'' \<mapsto> index_css),
                      effects := effects s @
                        [ExecSync (js ''npx tailwindcss init -p''),
                         WriteFileSync (js ''tailwind.config.js'') tailwind_config,
                         WriteFileSync (js ''src/index.css'') index_css]\<rparr>))
   \<and> (picked op = Some (Tailwind, li, ro, rq) \<and> action env op pd fs = (0, s')
        \<longrightarrow> (\<exists>before after.
               effects s' = before @
                 [ExecSync (js ''npx tailwindcss init -p''),
                  WriteFileSync (js ''tailwind.config.js'') tailwind_config,
                  WriteFileSync (js ''src/index.css'') index_css] @ after))\<close>
proof -
  have run: "\<exists>before after.
               effects s' = before @
                 [ExecSync (js ''npx tailwindcss init -p''),
                  WriteFileSync (js ''tailwind.config.js'') tailwind_config,
                  WriteFileSync (js ''src/index.css'') index_css] @ after"
    if h: "picked op = Some (Tailwind, li, ro, rq)" "action env op pd fs = (0, s')"
  proof -
    obtain a name s8 s9 s10 s11 where a: "prompt pd op = Some a"
      and c: "configure_tailwind env (set_userAnswers a pd) s8 = Inr s9"
        "initialize_biome env (set_userAnswers a pd) s9 = Inr s10"
        "update_package_json env (set_userAnswers a pd) s10 = Inr s11"
        "report_success name (path_resolve env name) s11 = Inr s'"
      using action_completed [OF h(2)] by blast
    have st: "styling (set_userAnswers a pd) = Tailwind"
      using prompt_picked [OF a] h(1) by simp
    obtain e1 e2 e3 where "effects s10 = effects s9 @ e1" "effects s11 = effects s10 @ e2"
      "effects s' = effects s11 @ e3"
      using appends_Inr [OF appends_initialize_biome c(2)]
        appends_Inr [OF appends_update_package_json c(3)]
        appends_Inr [OF appends_report_success c(4)] by blast
    then have "effects s' = effects s8 @
        [ExecSync (js ''npx tailwindcss init -p''),
         WriteFileSync (js ''tailwind.config.js'') tailwind_config,
         WriteFileSync (js ''src/index.css'') index_css] @ (e1 @ e2 @ e3)"
      using configure_tailwind_Inr [OF st c(1)] by simp
    then show ?thesis by blast
  qed
  have t: \<open>tailwind_config =
      join [code_unit (CHR 0x0A)]
        (map js [''/** @type {import('tailwindcss').Config} */'',
                 ''export default {'',
                 ''  content: ['',
                 ''    "./index.html",'',
                 ''    "./src/**/*.{js,ts,jsx,tsx}",'',
                 ''  ],'',
                 ''  theme: {'',
                 ''    extend: {},'',
                 ''  },'',
                 ''  plugins: [],'',
                 ''}''])\<close>
    by (simp add: tailwind_config_def js_def)
  have i: "index_css =
      join [code_unit (CHR 0x0A)]
        (map js [''@tailwind base;'', ''@tailwind components;'', ''@tailwind utilities;''])"
    by (simp add: index_css_def js_def)
  show ?thesis
    using t i run configure_tailwind_Tailwind [of ua env s fs1] by blast
qed

theorem tailwind_files_witness:
  "configure_tailwind example_env
      \<lparr>projectName = Some (js ''app''), styling = Tailwind, linting = NoLinting,
        router = NoRouter, reactQuery = No\<rparr>
      (initial_state Map.empty) =
     Inr \<lparr>files = [js ''package.json'' \<mapsto> js ''{}'',
                    js ''tailwind.config.js'' \<mapsto> tailwind_config,
                    js ''src/index.css'' \<mapsto> index_css],
          devDependencies = [], dependencies = [],
          effects = [ExecSync (js ''npx tailwindcss init -p''),
                     WriteFileSync (js ''tailwind.config.js'') tailwind_config,
                     WriteFileSync (js ''src/index.css'') index_css]\<rparr>
   \<and> fst (action example_env
         \<lparr>typed_names = [], picked = Some (Tailwind, NoLinting, NoRouter, No)\<rparr>
         (Some (js ''app'')) Map.empty) = 0
   \<and> (\<exists>before after.
        effects (snd (action example_env
            \<lparr>typed_names = [], picked = Some (Tailwind, NoLinting, NoRouter, No)\<rparr>
            (Some (js ''app'')) Map.empty)) =
          before @
          [ExecSync (js ''npx tailwindcss init -p''),
           WriteFileSync (js ''tailwind.config.js'') tailwind_config,
           WriteFileSync (js ''src/index.css'') index_css] @ after)"
proof -
  define op where "op = \<lparr>typed_names = [], picked = Some (Tailwind, NoLinting, NoRouter, No)\<rparr>"
  define ua where "ua = \<lparr>projectName = Some (js ''app''), styling = Tailwind, linting = NoLinting,
        router = NoRouter, reactQuery = No\<rparr>"
  have st: "fst (action example_env op (Some (js ''app'')) Map.empty) = 0"
    by (simp add: step_defs example_env_def op_def)
  then have run: "action example_env op (Some (js ''app'')) Map.empty =
      (0, snd (action example_env op (Some (js ''app'')) Map.empty))"
    by (simp add: prod_eq_iff)
  have h: "styling ua = Tailwind"
    "subprocess example_env (js ''npx tailwindcss init -p'') (files (initial_state Map.empty))
       = (True, [js ''package.json'' \<mapsto> js ''{}''])"
    "write_ok example_env (js ''tailwind.config.js'') [js ''package.json'' \<mapsto> js ''{}'']"
    "write_ok example_env (js ''src/index.css'')
       ([js ''package.json'' \<mapsto> js ''{}''](js ''tailwind.config.js'' \<mapsto> tailwind_config))"
    "picked op = Some (Tailwind, NoLinting, NoRouter, No)"
    by (simp_all add: ua_def op_def example_env_def initial_state_def)
  show ?thesis
    using tailwind_files [where ua = ua and env = example_env and s = "initial_state Map.empty"
        and ?fs1.0 = "[js ''package.json'' \<mapsto> js ''{}'']" and op = op and li = NoLinting
        and ro = NoRouter and rq = No and pd = "Some (js ''app'')" and fs = Map.empty
        and s' = "snd (action example_env op (Some (js ''app'')) Map.empty)"]
      h run st
    unfolding op_def [symmetric] ua_def [symmetric]
    by (simp add: initial_state_def)
qed


section \<open>The rewritten script table\<close>

text \<open>
  C2. Whatever script table the manifest has, with linting \<open>EslintPrettier\<close> the rewritten
  table maps \<^verbatim>\<open>lint\<close>, \<^verbatim>\<open>lint:fix\<close> and \<^verbatim>\<open>format\<close> to the three fixed eslint and prettier
  commands, and every other key has the value it had (none if it had none).
\<close>

theorem scripts_eslintPrettier:
  "\<exists>t'. scripts EslintPrettier (Some t) = Inr t'
     \<and> DAList.lookup t' (js ''lint'') = Some (js ''eslint src --ext .ts,.tsx'')
     \<and> DAList.lookup t' (js ''lint:fix'') = Some (js ''eslint src --ext .ts,.tsx --fix'')
     \<and> DAList.lookup t' (js ''format'')
           = Some (js (''prettier --write 'src/**/*.{ts,tsx,css,md}'' @ [CHR 0x27]))
     \<and> (\<forall>key. key \<notin> {js ''lint'', js ''lint:fix'', js ''format''}
            \<longrightarrow> DAList.lookup t' key = DAList.lookup t key)"
  by (simp add: scripts_def assign_def spread_def DAList.lookup_update)

theorem scripts_eslintPrettier_witness:
  "\<exists>t'. scripts EslintPrettier
            (Some (DAList.update (js ''dev'') (js ''vite'')
                    (DAList.update (js ''lint'') (js ''eslint .'') DAList.empty))) = Inr t'
     \<and> DAList.lookup t' (js ''lint'') = Some (js ''eslint src --ext .ts,.tsx'')
     \<and> js ''dev'' \<notin> {js ''lint'', js ''lint:fix'', js ''format''}
     \<and> DAList.lookup t' (js ''dev'') = Some (js ''vite'')"
  using scripts_eslintPrettier
    [of "DAList.update (js ''dev'') (js ''vite'')
           (DAList.update (js ''lint'') (js ''eslint .'') DAList.empty)"]
  by auto

text \<open>
  C3. Whatever script table the manifest has, with linting \<open>NoLinting\<close> the rewritten table
  has no \<^verbatim>\<open>lint\<close>, \<^verbatim>\<open>lint:fix\<close> or \<^verbatim>\<open>format\<close> key, whether or not it had one, and every other
  key has the value it had.
\<close>

theorem scripts_none:
  "\<exists>t'. scripts NoLinting (Some t) = Inr t'
     \<and> DAList.lookup t' (js ''lint'') = None
     \<and> DAList.lookup t' (js ''lint:fix'') = None
     \<and> DAList.lookup t' (js ''format'') = None
     \<and> (\<forall>key. key \<notin> {js ''lint'', js ''lint:fix'', js ''format''}
            \<longrightarrow> DAList.lookup t' key = DAList.lookup t key)"
  by (auto simp add: scripts_def lookup_filter split: option.splits)

theorem scripts_none_witness:
  "\<exists>t'. scripts NoLinting
            (Some (DAList.update (js ''dev'') (js ''vite'')
                    (DAList.update (js ''lint'') (js ''eslint .'') DAList.empty))) = Inr t'
     \<and> DAList.lookup t' (js ''lint'') = None
     \<and> js ''dev'' \<notin> {js ''lint'', js ''lint:fix'', js ''format''}
     \<and> DAList.lookup t' (js ''dev'') = Some (js ''vite'')"
  using scripts_none
    [of "DAList.update (js ''dev'') (js ''vite'')
           (DAList.update (js ''lint'') (js ''eslint .'') DAList.empty)"]
  by auto

text \<open>
  C4, as the code has it. Whatever script table the manifest has, with linting \<open>Biome\<close>
  the rewritten table maps \<^verbatim>\<open>lint\<close> and \<^verbatim>\<open>lint:fix\<close> to the two fixed biome commands and
  every other key, \<^verbatim>\<open>format\<close> among them, has the value it had: the table has a \<^verbatim>\<open>format\<close>
  entry exactly when it had one before.
\<close>

theorem scripts_biome:
  "\<exists>t'. scripts Biome (Some t) = Inr t'
     \<and> DAList.lookup t' (js ''lint'') = Some (js ''biome check --apply src'')
     \<and> DAList.lookup t' (js ''lint:fix'') = Some (js ''biome check --apply --fix src'')
     \<and> (\<forall>key. key \<notin> {js ''lint'', js ''lint:fix''}
            \<longrightarrow> DAList.lookup t' key = DAList.lookup t key)"
  by (simp add: scripts_def assign_def spread_def DAList.lookup_update)

theorem scripts_biome_witness:
  "\<exists>t'. scripts Biome (Some (DAList.update (js ''dev'') (js ''vite'') DAList.empty)) = Inr t'
     \<and> DAList.lookup t' (js ''lint'') = Some (js ''biome check --apply src'')
     \<and> js ''format'' \<notin> {js ''lint'', js ''lint:fix''}
     \<and> DAList.lookup t' (js ''format'') = None
     \<and> DAList.lookup t' (js ''dev'') = Some (js ''vite'')"
  using scripts_biome [of "DAList.update (js ''dev'') (js ''vite'') DAList.empty"]
  by auto

text \<open>
  C4 as it is stated fails where the manifest has a \<^verbatim>\<open>format\<close> script: with linting \<open>Biome\<close>
  the rewritten table still has it.
\<close>

theorem scripts_biome_keeps_format:
  "DAList.lookup
     (projr (scripts Biome
               (Some (DAList.update (js ''format'') (js ''prettier --write .'') DAList.empty))))
     (js ''format'') = Some (js ''prettier --write .'')"
  by (simp add: scripts_def assign_def spread_def DAList.lookup_update)


section \<open>The project name\<close>

text \<open>
  C7. The name question accepts a line exactly when it is not empty and each of its
  characters is a letter, a digit, whitespace, a hyphen or an underscore; the answer for
  an accepted line is the line with each maximal run of whitespace replaced by one
  hyphen, and after a rejected line the question is asked again. So \<^verbatim>\<open>My App\<close> gives
  \<^verbatim>\<open>My-App\<close>, and \<^verbatim>\<open>bad!name\<close> and the empty line are rejected.
\<close>

theorem validate_filter_input:
  "(validate input = Valid \<longleftrightarrow> input \<noteq> [] \<and> (\<forall>c\<in>set input. name_char c))
   \<and> filter_input input = hyphenate_runs input
   \<and> ask_projectName (input # later) =
       (if validate input = Valid then Some (hyphenate_runs input) else ask_projectName later)"
  by (simp add: validate_iff filter_input_runs)

theorem validate_filter_input_witness:
  "validate (js ''My App'') = Valid
   \<and> ask_projectName [js ''bad!name'', [], js ''My App''] = Some (js ''My-App'')
   \<and> validate (js ''bad!name'') \<noteq> Valid
   \<and> validate [] \<noteq> Valid"
proof -
  have ws: "white_space (code_unit CHR '' '')" "\<not> white_space (code_unit CHR ''M'')" "\<not> white_space (code_unit CHR ''y'')"
     "\<not> white_space (code_unit CHR ''A'')"  "\<not> white_space (code_unit CHR ''p'')" 
    by (simp_all add: white_space_def code_unit_def)
  have h: "hyphenate_runs (js ''My App'') = js ''My-App''"
    by (simp add: hyphenate_runs_def js_def ws)
  have bad: "\<not> name_char (code_unit CHR ''!'')"
    by (simp add: name_char_def letter_def digit_def white_space_def js_def) (simp add: code_unit_def)
  have good: "\<forall>c\<in>set (js ''My App''). name_char c"
    by (simp add: name_char_def letter_def digit_def js_def ws)
  show ?thesis
    using validate_filter_input [of "js ''My App''" "[]"]
      validate_filter_input [of "js ''bad!name''" "[[], js ''My App'']"]
      validate_filter_input [of "[]" "[js ''My App'']"] h bad good
    by (simp add: js_def)
qed

text \<open>
  C10. A line of one or more whitespace characters and nothing else is accepted, and its
  answer is the single hyphen, which has no letter and no digit. When the name is asked
  for, the run then takes \<^verbatim>\<open>-\<close> as the project name: it is the directory that is created
  and the name given to the scaffolder.
\<close>

theorem whitespace_only_name:
  assumes "input \<noteq> []" and "\<forall>c\<in>set input. white_space c"
  shows "validate input = Valid
    \<and> filter_input input = js ''-''
    \<and> (\<forall>c\<in>set (filter_input input). \<not> letter c \<and> \<not> digit c)
    \<and> (not_given pd \<and> typed_names op = input # later \<and> picked op \<noteq> None \<longrightarrow>
         (\<exists>a es. prompt pd op = Some a
            \<and> projectName (set_userAnswers a pd) = Some (js ''-'')
            \<and> effects (snd (action env op pd fs)) =
                 [ConsoleLog Blue
                    (js ''Creating a new React CSR app in '' @ path_resolve env (js ''-'')),
                  EnsureDirSync (path_resolve env (js ''-''))]
                 @ (if ensureDir_ok env (path_resolve env (js ''-''))
                    then [ExecSync (js ''npm create vite@latest - -- --template react-swc-ts'')]
                    else [])
                 @ es))"
proof -
  have v: "validate input = Valid"
    using assms by (simp add: validate_iff name_char_def)
  have f: "filter_input input = js ''-''"
    using assms by (rule filter_input_whitespace)
  have n: "\<forall>c\<in>set (filter_input input). \<not> letter c \<and> \<not> digit c"
    using hyphen_not_alnum by (simp add: f js_def)
  have run: "\<exists>a es. prompt pd op = Some a
            \<and> projectName (set_userAnswers a pd) = Some (js ''-'')
            \<and> effects (snd (action env op pd fs)) =
                 [ConsoleLog Blue
                    (js ''Creating a new React CSR app in '' @ path_resolve env (js ''-'')),
                  EnsureDirSync (path_resolve env (js ''-''))]
                 @ (if ensureDir_ok env (path_resolve env (js ''-''))
                    then [ExecSync (js ''npm create vite@latest - -- --template react-swc-ts'')]
                    else [])
                 @ es"
    if h: "not_given pd" "typed_names op = input # later" "picked op \<noteq> None"
  proof -
    obtain st li ro rq where ch: "picked op = Some (st, li, ro, rq)"
      using h(3) by (cases "picked op") auto
    define a where "a = \<lparr>answers_projectName = Some (js ''-''), answers_styling = st,
       answers_linting = li, answers_router = ro, answers_reactQuery = rq\<rparr>"
    have p: "prompt pd op = Some a"
      using h(1,2) ch v f by (simp add: prompt_def a_def)
    have nm: "projectName (set_userAnswers a pd) = Some (js ''-'')"
      by (simp add: set_userAnswers_def a_def)
    have cmd: "js ''npm create vite@latest '' @ js ''-'' @ js '' -- --template react-swc-ts''
       = js ''npm create vite@latest - -- --template react-swc-ts''"
      by (simp add: js_def)
    show ?thesis
      using action_effects_start [OF p nm, of env fs] p nm by (simp only: cmd) blast
  qed
  show ?thesis using v f n run by blast
qed

theorem whitespace_only_name_witness:
  "js '' '' \<noteq> [] \<and> validate (js '' '') = Valid \<and> filter_input (js '' '') = js ''-''
   \<and> take 3 (effects (snd (action example_env
         \<lparr>typed_names = [js '' ''], picked = Some (NoStyling, NoLinting, NoRouter, No)\<rparr>
         None Map.empty)))
       = [ConsoleLog Blue (js ''Creating a new React CSR app in /work/-''),
          EnsureDirSync (js ''/work/-''),
          ExecSync (js ''npm create vite@latest - -- --template react-swc-ts'')]"
proof -
  have ws: "\<forall>c\<in>set (js '' ''). white_space c"
    by (simp add: js_def code_unit_def white_space_def)
  have ne: "js '' '' \<noteq> []" by (simp add: js_def)
  show ?thesis
    using whitespace_only_name [OF ne ws, of None
       "\<lparr>typed_names = [js '' ''], picked = Some (NoStyling, NoLinting, NoRouter, No)\<rparr>" "[]"
       example_env Map.empty] ne
    by (auto simp add: not_given_def example_env_def js_def)
qed


section \<open>A missing linter configuration\<close>

text \<open>
  C8. In a run with linting \<open>Biome\<close> in which the files that the scaffolder leaves have no
  \<^verbatim>\<open>eslint.config.js\<close>, the process exits with status 1 and the last thing it does is to
  print an error after the red label \<^verbatim>\<open>Error:\<close>; the run never completes. When the
  steps before the deletion succeed, the error printed is the one that
  \<^verbatim>\<open>unlinkSync\<close> throws for the missing file, and nothing is installed or written.
\<close>

theorem biome_missing_eslint_config:
  assumes "prompt pd op = Some a" and "answers_linting a = Biome"
    and "projectName (set_userAnswers a pd) = Some name"
    and "snd (subprocess env (js ''npm create vite@latest '' @ name @ js '' -- --template react-swc-ts'') fs)
           (js ''eslint.config.js'') = None"
  shows "fst (action env op pd fs) = 1
    \<and> (\<exists>e. last (effects (snd (action env op pd fs))) = ConsoleError Red (js ''Error:'') e)
    \<and> (ensureDir_ok env (path_resolve env name)
        \<and> fst (subprocess env (js ''npm create vite@latest '' @ name @ js '' -- --template react-swc-ts'') fs)
        \<and> chdir_ok env (path_resolve env name)
        \<longrightarrow> effects (snd (action env op pd fs)) =
              [ConsoleLog Blue (js ''Creating a new React CSR app in '' @ path_resolve env name),
               EnsureDirSync (path_resolve env name),
               ExecSync (js ''npm create vite@latest '' @ name @ js '' -- --template react-swc-ts''),
               Chdir (path_resolve env name),
               UnlinkSync (js ''eslint.config.js''),
               ConsoleError Red (js ''Error:'') (NoSuchFile (js ''eslint.config.js''))])"
proof -
  define cmd where "cmd = js ''npm create vite@latest '' @ name @ js '' -- --template react-swc-ts''"
  define p where "p = path_resolve env name"
  define ua where "ua = set_userAnswers a pd"
  have li: "linting ua = Biome" using assms(2) by (simp add: ua_def)
  have not_completed: "action_body env op pd (initial_state fs) \<noteq> Inr s" for s
  proof
    assume "action_body env op pd (initial_state fs) = Inr s"
    then have "action env op pd fs = (0, s)" by (simp add: action_def)
    from action_completed [OF this] assms(1,3)
    obtain s4 s5 s6 where
      c: "sequence
              [console_log Blue (js ''Creating a new React CSR app in '' @ p),
               ensureDirSync env p, execSync env cmd, chdir env p] (initial_state fs) = Inr s4"
        "add_styling_dependencies ua s4 = Inr s5"
        "add_linting_dependencies env ua s5 = Inr s6"
      by (auto simp: cmd_def p_def ua_def)
    have "files s5 (js ''eslint.config.js'') = None"
      using scaffold_files [OF c(1)] add_styling_dependencies_files [OF c(2)] assms(4)
      by (simp add: cmd_def)
    then show False
      using add_linting_dependencies_Biome_missing [OF li, of s5 env] c(3) by simp
  qed
  then obtain e s where
    act: "action env op pd fs = (1, s\<lparr>effects := effects s @ [ConsoleError Red (js ''Error:'') e]\<rparr>)"
    using action_cases [of env op pd fs] by auto
  have exact: "effects (snd (action env op pd fs)) =
              [ConsoleLog Blue (js ''Creating a new React CSR app in '' @ p),
               EnsureDirSync p, ExecSync cmd, Chdir p,
               UnlinkSync (js ''eslint.config.js''),
               ConsoleError Red (js ''Error:'') (NoSuchFile (js ''eslint.config.js''))]"
    if ok: "ensureDir_ok env p" "fst (subprocess env cmd fs)" "chdir_ok env p"
  proof (cases "answers_styling a")
    case Mui
    then show ?thesis
      using assms ok li
      by (simp add: action_def action_body_def add_styling_dependencies_def
            add_linting_dependencies_def prim_defs initial_state_def
            cmd_def [symmetric] p_def [symmetric] ua_def [symmetric])
  next
    case Tailwind
    then show ?thesis
      using assms ok li
      by (simp add: action_def action_body_def add_styling_dependencies_def
            add_linting_dependencies_def prim_defs initial_state_def
            cmd_def [symmetric] p_def [symmetric] ua_def [symmetric])
  next
    case NoStyling
    then show ?thesis
      using assms ok li
      by (simp add: action_def action_body_def add_styling_dependencies_def
            add_linting_dependencies_def prim_defs initial_state_def
            cmd_def [symmetric] p_def [symmetric] ua_def [symmetric])
  qed
  show ?thesis using act exact by (simp add: cmd_def p_def)
qed

theorem biome_missing_eslint_config_witness:
  "fst (action example_env
          \<lparr>typed_names = [], picked = Some (NoStyling, Biome, NoRouter, No)\<rparr>
          (Some (js ''app'')) Map.empty) = 1
   \<and> effects (snd (action example_env
          \<lparr>typed_names = [], picked = Some (NoStyling, Biome, NoRouter, No)\<rparr>
          (Some (js ''app'')) Map.empty)) =
       [ConsoleLog Blue (js ''Creating a new React CSR app in /work/app''),
        EnsureDirSync (js ''/work/app''),
        ExecSync (js ''npm create vite@latest app -- --template react-swc-ts''),
        Chdir (js ''/work/app''),
        UnlinkSync (js ''eslint.config.js''),
        ConsoleError Red (js ''Error:'') (NoSuchFile (js ''eslint.config.js''))]"
proof -
  define op where "op = \<lparr>typed_names = [], picked = Some (NoStyling, Biome, NoRouter, No)\<rparr>"
  define a where "a = \<lparr>answers_projectName = None, answers_styling = NoStyling,
     answers_linting = Biome, answers_router = NoRouter, answers_reactQuery = No\<rparr>"
  have h: "prompt (Some (js ''app'')) op = Some a" "answers_linting a = Biome"
    "projectName (set_userAnswers a (Some (js ''app''))) = Some (js ''app'')"
    "snd (subprocess example_env
            (js ''npm create vite@latest '' @ js ''app'' @ js '' -- --template react-swc-ts'')
            Map.empty) (js ''eslint.config.js'') = None"
    by (simp_all add: prompt_def not_given_def set_userAnswers_def op_def a_def example_env_def)
  show ?thesis
    using biome_missing_eslint_config [OF h]
    unfolding op_def [symmetric]
    by (simp add: example_env_def)
qed

end
